theory Spec2Isabelle
  imports Main "HOL-Library.Char_ord" "HOL-Library.List_Lexorder"
begin

section \<open>The package index generator (generate-index.py)\<close>

text \<open>
  The script fetches the Maven packages of an account and the versions of each package
  from a REST API, sorts the package records by name and renders one HTML page.
  The model follows the four functions of the script: \<open>api_get\<close>, \<open>fetch_packages\<close>,
  \<open>generate_html\<close> and \<open>main\<close>.

  A Python \<open>str\<close> is a HOL \<open>string\<close>, one \<open>char\<close> for one character; the order on
  strings is the lexicographic order on character codes, which is how Python compares
  two \<open>str\<close> values.
\<close>

subsection \<open>Values decoded from JSON\<close>

text \<open>
  What \<open>json.loads\<close> returns: \<open>None\<close>, a \<open>bool\<close>, an \<open>int\<close>, a \<open>float\<close>
  (kept as the text \<open>float.__repr__\<close> gives for it), a \<open>str\<close>, a \<open>list\<close>, or a
  \<open>dict\<close> with its items in insertion order.
\<close>

datatype json =
    JNull
  | JBool bool
  | JInt int
  | JFloat string
  | JString string
  | JList "json list"
  | JDict "(string \<times> json) list"

text \<open>The exceptions that can leave a function of the script.\<close>

datatype error =
    NameError string
  | AttributeError string
  | KeyError string
  | IndexError
  | ValueError string
  | URLError string
  | UnicodeDecodeError
  | JSONDecodeError

subsection \<open>The network and the process state\<close>

record request =
  url :: string
  headers :: "(string \<times> string) list"

text \<open>
  What one call of \<open>urllib.request.urlopen\<close> does:
  \<^item> \<open>Response r\<close>: it returns a response, and \<open>json.loads(resp.read().decode())\<close>
    gives \<open>r\<close>, the decoded value or the exception raised by reading, decoding or parsing;
  \<^item> \<open>Status_error code b\<close>: it raises \<open>HTTPError\<close> with \<open>e.code = code\<close>, and
    \<open>e.read().decode()\<close> gives \<open>b\<close>, the body text or the exception raised by it;
  \<^item> \<open>Failed e\<close>: it raises an exception \<open>e\<close> that is not an \<open>HTTPError\<close>, such
    as \<open>URLError reason\<close> when no HTTP status was received.
\<close>

datatype reply =
    Response "error + json"
  | Status_error nat "error + string"
  | Failed error

text \<open>
  The network is an oracle: the reply that the \<open>k\<close>-th \<open>urlopen\<close> call of the run
  (counted from 0) gets to its request.
\<close>

type_synonym network = "nat \<Rightarrow> request \<Rightarrow> reply"

text \<open>
  A printed line is recorded as the \<open>print\<close> statement that wrote it, with the values
  it formats.
\<close>

datatype out_line =
    Usage
  | Fetching_packages string string
  | Fetching_versions json
  | Found_packages nat
  | Generated nat

datatype err_line =
    API_error nat string string
  | Unexpected_response json

record state =
  calls :: nat
  stdout :: "out_line list"
  stderr :: "err_line list"
  site_index :: "string option"

subsection \<open>\<open>api_get\<close>\<close>

fun starts_with :: "string \<Rightarrow> string \<Rightarrow> bool" where
  "starts_with [] s = True"
| "starts_with (c # cs) [] = False"
| "starts_with (c # cs) (d # ds) = (c = d \<and> starts_with cs ds)"

text \<open>\<open>str_in sub s\<close> is Python's \<open>sub in s\<close> on strings.\<close>

fun str_in :: "string \<Rightarrow> string \<Rightarrow> bool" where
  "str_in sub [] = (sub = [])"
| "str_in sub (c # cs) = (starts_with sub (c # cs) \<or> str_in sub cs)"

definition api_request :: "string \<Rightarrow> string \<Rightarrow> request" where
  "api_request u token =
     \<lparr>url = u,
      headers = [(''Accept'', ''application/vnd.github+json''),
                 (''Authorization'', ''Bearer '' @ token),
                 (''X-GitHub-Api-Version'', ''2022-11-28'')]\<rparr>"

definition api_get :: "network \<Rightarrow> string \<Rightarrow> string \<Rightarrow> state \<Rightarrow> (error + json) \<times> state" where
  "api_get U u token s =
     (let s1 = s\<lparr>calls := Suc (calls s)\<rparr> in
      case U (calls s) (api_request u token) of
        Response (Inr j) \<Rightarrow> (Inr j, s1)
      | Response (Inl e) \<Rightarrow> (Inl e, s1)
      | Status_error code (Inr body) \<Rightarrow>
          (Inr (if str_in ''versions'' u \<or> str_in ''packages'' u then JList [] else JDict []),
           s1\<lparr>stderr := stderr s1 @ [API_error code u body]\<rparr>)
      | Status_error code (Inl e) \<Rightarrow> (Inl e, s1)
      | Failed e \<Rightarrow> (Inl e, s1))"

subsection \<open>\<open>fetch_packages\<close>\<close>

record version =
  v_name :: json
  v_created_at :: json
  v_updated_at :: json
  v_html_url :: json

record package =
  name :: string
  package_type :: json
  html_url :: json
  created_at :: json
  updated_at :: json
  versions :: "version list"

definition packages_url :: "string \<Rightarrow> string" where
  "packages_url owner =
     ''https://api.github.com/users/'' @ owner @ ''/packages?package_type=maven&per_page=100''"

definition versions_url :: "string \<Rightarrow> string \<Rightarrow> string" where
  "versions_url owner encoded =
     ''https://api.github.com/users/'' @ owner @ ''/packages/maven/'' @ encoded
       @ ''/versions?per_page=50''"

text \<open>\<open>d.get(key, default)\<close> on a dictionary.\<close>

definition get_default :: "(string \<times> json) list \<Rightarrow> string \<Rightarrow> json \<Rightarrow> json" where
  "get_default kvs k d = (case map_of kvs k of None \<Rightarrow> d | Some v \<Rightarrow> v)"

text \<open>\<open>x.get(key, default)\<close> on any decoded value: only a \<open>dict\<close> has \<open>get\<close>.\<close>

fun py_get :: "json \<Rightarrow> string \<Rightarrow> json \<Rightarrow> error + json" where
  "py_get (JDict kvs) k d = Inr (get_default kvs k d)"
| "py_get x k d = Inl (AttributeError ''get'')"

text \<open>\<open>name.replace('/', '%2F')\<close>: only a \<open>str\<close> has \<open>replace\<close>.\<close>

definition encode_slashes :: "string \<Rightarrow> string" where
  "encode_slashes n = concat (map (\<lambda>c. if c = CHR ''/'' then ''%2F'' else [c]) n)"

fun py_replace_slash :: "json \<Rightarrow> error + string \<times> string" where
  "py_replace_slash (JString n) = Inr (n, encode_slashes n)"
| "py_replace_slash x = Inl (AttributeError ''replace'')"

text \<open>The inner dictionary built for one element \<open>v\<close> of the versions list.\<close>

fun version_record :: "json \<Rightarrow> error + version" where
  "version_record (JDict kvs) =
     Inr \<lparr>v_name = get_default kvs ''name'' (JString ''''),
          v_created_at = get_default kvs ''created_at'' (JString ''''),
          v_updated_at = get_default kvs ''updated_at'' (JString ''''),
          v_html_url = get_default kvs ''html_url'' (JString '''')\<rparr>"
| "version_record x = Inl (AttributeError ''get'')"

text \<open>
  The list comprehension over \<open>versions if isinstance(versions, list) else []\<close>: the
  first element without \<open>get\<close> raises.
\<close>

fun version_list :: "json list \<Rightarrow> error + version list" where
  "version_list [] = Inr []"
| "version_list (v # vs) =
     (case version_record v of
        Inl e \<Rightarrow> Inl e
      | Inr r \<Rightarrow> (case version_list vs of Inl e \<Rightarrow> Inl e | Inr rs \<Rightarrow> Inr (r # rs)))"

fun version_records :: "json \<Rightarrow> error + version list" where
  "version_records (JList vs) = version_list vs"
| "version_records x = Inr []"

text \<open>One round of the loop \<open>for pkg in packages\<close>: the record appended to \<open>result\<close>.\<close>

definition fetch_one :: "network \<Rightarrow> string \<Rightarrow> string \<Rightarrow> json \<Rightarrow> state \<Rightarrow> (error + package) \<times> state" where
  "fetch_one U owner token pkg s =
     (case py_get pkg ''name'' (JString '''') of
        Inl e \<Rightarrow> (Inl e, s)
      | Inr nm \<Rightarrow>
          (let s1 = s\<lparr>stdout := stdout s @ [Fetching_versions nm]\<rparr> in
           case py_replace_slash nm of
             Inl e \<Rightarrow> (Inl e, s1)
           | Inr (n, encoded) \<Rightarrow>
               (case api_get U (versions_url owner encoded) token s1 of
                  (Inl e, s2) \<Rightarrow> (Inl e, s2)
                | (Inr vers, s2) \<Rightarrow>
                    (case (py_get pkg ''package_type'' (JString ''maven''),
                           py_get pkg ''html_url'' (JString ''''),
                           py_get pkg ''created_at'' (JString ''''),
                           py_get pkg ''updated_at'' (JString ''''),
                           version_records vers) of
                       (Inr pt, Inr hu, Inr ca, Inr ua, Inr vs) \<Rightarrow>
                         (Inr \<lparr>name = n, package_type = pt, html_url = hu,
                               created_at = ca, updated_at = ua, versions = vs\<rparr>, s2)
                     | (Inl e, _) \<Rightarrow> (Inl e, s2)
                     | (_, Inl e, _) \<Rightarrow> (Inl e, s2)
                     | (_, _, Inl e, _) \<Rightarrow> (Inl e, s2)
                     | (_, _, _, Inl e, _) \<Rightarrow> (Inl e, s2)
                     | (_, _, _, _, Inl e) \<Rightarrow> (Inl e, s2)))))"

fun fetch_loop :: "network \<Rightarrow> string \<Rightarrow> string \<Rightarrow> json list \<Rightarrow> package list \<Rightarrow> state
    \<Rightarrow> (error + package list) \<times> state" where
  "fetch_loop U owner token [] result s = (Inr result, s)"
| "fetch_loop U owner token (pkg # pkgs) result s =
     (case fetch_one U owner token pkg s of
        (Inl e, s') \<Rightarrow> (Inl e, s')
      | (Inr p, s') \<Rightarrow> fetch_loop U owner token pkgs (result @ [p]) s')"

definition fetch_packages :: "network \<Rightarrow> string \<Rightarrow> string \<Rightarrow> state \<Rightarrow> (error + package list) \<times> state" where
  "fetch_packages U owner token s =
     (case api_get U (packages_url owner) token s of
        (Inl e, s1) \<Rightarrow> (Inl e, s1)
      | (Inr (JList pkgs), s1) \<Rightarrow>
          (case fetch_loop U owner token pkgs [] s1 of
             (Inl e, s2) \<Rightarrow> (Inl e, s2)
           | (Inr result, s2) \<Rightarrow> (Inr (sort_key name result), s2))
      | (Inr packages, s1) \<Rightarrow>
          (Inr [], s1\<lparr>stderr := stderr s1 @ [Unexpected_response packages]\<rparr>))"

subsection \<open>\<open>json.dumps(packages, ensure_ascii=False)\<close>\<close>

definition dquote :: char where "dquote = CHR 0x22"
definition backslash :: char where "backslash = CHR 0x5C"

definition digit_char :: "nat \<Rightarrow> char" where
  "digit_char d = char_of (48 + d)"

definition hex_char :: "nat \<Rightarrow> char" where
  "hex_char d = (if d < 10 then char_of (48 + d) else char_of (87 + d))"

text \<open>The decimal text of an \<open>int\<close>, as \<open>int.__repr__\<close> writes it.\<close>

function show_nat :: "nat \<Rightarrow> string" where
  "show_nat n = (if n < 10 then [digit_char n] else show_nat (n div 10) @ [digit_char (n mod 10)])"
  by pat_completeness auto
termination
  by (relation "measure id") auto

declare show_nat.simps [simp del]

definition show_int :: "int \<Rightarrow> string" where
  "show_int i = (if i < 0 then CHR ''-'' # show_nat (nat (- i)) else show_nat (nat i))"


definition escape_char :: "char \<Rightarrow> string" where
  "escape_char c =
     (if c = backslash then [backslash, backslash]
      else if c = dquote then [backslash, dquote]
      else if c = CHR 0x08 then [backslash, CHR ''b'']
      else if c = CHR 0x0C then [backslash, CHR ''f'']
      else if c = CHR 0x0A then [backslash, CHR ''n'']
      else if c = CHR 0x0D then [backslash, CHR ''r'']
      else if c = CHR 0x09 then [backslash, CHR ''t'']
      else if (of_char c :: nat) < 32
        then [backslash, CHR ''u'', CHR ''0'', CHR ''0'',
              hex_char (of_char c div 16), hex_char (of_char c mod 16)]
      else [c])"

definition encode_basestring :: "string \<Rightarrow> string" where
  "encode_basestring s = dquote # concat (map escape_char s) @ [dquote]"

text \<open>\<open>sep.join(parts)\<close>.\<close>

fun join :: "string \<Rightarrow> string list \<Rightarrow> string" where
  "join sep [] = []"
| "join sep [x] = x"
| "join sep (x # y # ys) = x @ sep @ join sep (y # ys)"

text \<open>
  The text written for a \<open>float\<close>: its \<open>repr\<close>, and \<open>NaN\<close>, \<open>Infinity\<close>,
  \<open>-Infinity\<close> for the values that are not finite.
\<close>

definition float_text :: "string \<Rightarrow> string" where
  "float_text r =
     (if r = ''nan'' then ''NaN'' else if r = ''inf'' then ''Infinity''
      else if r = ''-inf'' then ''-Infinity'' else r)"

text \<open>
  The encoder with its default separators \<open>', '\<close> and \<open>': '\<close>; the keys of a decoded
  dictionary are strings.
\<close>

fun json_dumps :: "json \<Rightarrow> string" where
  "json_dumps JNull = ''null''"
| "json_dumps (JBool b) = (if b then ''true'' else ''false'')"
| "json_dumps (JInt i) = show_int i"
| "json_dumps (JFloat r) = float_text r"
| "json_dumps (JString s) = encode_basestring s"
| "json_dumps (JList xs) = ''['' @ join '', '' (map json_dumps xs) @ '']''"
| "json_dumps (JDict kvs) =
     ''{'' @ join '', '' (map (\<lambda>kv. encode_basestring (fst kv) @ '': '' @ json_dumps (snd kv)) kvs)
       @ ''}''"

text \<open>
  The dictionaries that \<open>fetch_packages\<close> built, keys in the order of the dictionary
  displays.
\<close>

definition version_dict :: "version \<Rightarrow> json" where
  "version_dict v =
     JDict [(''name'', v_name v), (''created_at'', v_created_at v),
            (''updated_at'', v_updated_at v), (''html_url'', v_html_url v)]"

definition package_dict :: "package \<Rightarrow> json" where
  "package_dict p =
     JDict [(''name'', JString (name p)), (''package_type'', package_type p),
            (''html_url'', html_url p), (''created_at'', created_at p),
            (''updated_at'', updated_at p),
            (''versions'', JList (map version_dict (versions p)))]"

definition pkg_json :: "package list \<Rightarrow> string" where
  "pkg_json packages = json_dumps (JList (map package_dict packages))"

definition total_versions :: "package list \<Rightarrow> nat" where
  "total_versions packages = sum_list (map (\<lambda>p. length (versions p)) packages)"

subsection \<open>\<open>generate_html\<close>\<close>

text \<open>
  What the function takes from the Python runtime:
  \<^item> \<open>static_text k\<close>, the \<open>k\<close>-th long run of static text of the page template
    (style sheet, header, usage section, client script), as the compiler reads it;
  \<^item> \<open>utc_now\<close>, the text of
    \<open>datetime.now(timezone.utc).strftime('%Y-%m-%d %H:%M:%S UTC')\<close>;
  \<^item> \<open>str_format t kw\<close>, the method call \<open>t.format(**kw)\<close>, the values of \<open>kw\<close>
    given as the text \<open>format\<close> writes for them.
  Every result below holds for all three.
\<close>

record runtime =
  static_text :: "nat \<Rightarrow> string"
  utc_now :: string
  str_format :: "string \<Rightarrow> (string \<times> string) list \<Rightarrow> error + string"

text \<open>
  The page template is written \<open>f'''...'''\<close>: a formatted string literal. The compiler
  splits it into static text, where \<open>{{\<close> and \<open>}}\<close> stand for one brace, and
  replacement fields \<open>{name}\<close>.
\<close>

datatype segment = Lit string | Field string

text \<open>
  The segments of the literal of lines 68 to 369, in order. The short runs of static
  text are written out; the long ones are
  \<open>static 0\<close> (lines 68 to 253), \<open>static 1\<close> (253 to 254), \<open>static 2\<close> (254 to 264),
  \<open>static 3\<close> (264 to 265), \<open>static 4\<close> (265 to 266), \<open>static 5\<close> (266 to 287),
  \<open>static 6\<close> (287 to 308), \<open>static 7\<close> (308) and \<open>static 8\<close> (312 to 369).
\<close>

definition html_template :: "(nat \<Rightarrow> string) \<Rightarrow> segment list" where
  \<open>html_template static =
     [Lit (static 0), Field ''owner'', Lit ''/'', Field ''repo'',
      Lit ''">github.com/'', Field ''owner'', Lit ''/'', Field ''repo'',
      Lit (static 1), Field ''build_time'',
      Lit (static 2), Field ''pkg_count'',
      Lit (static 3), Field ''ver_count'',
      Lit (static 4), Field ''owner'', Lit ''/'', Field ''repo'',
      Lit ''/commit/'', Field ''commit_sha'',
      Lit ''" style="color:var(--text);text-decoration:none">'', Field ''short_sha'',
      Lit (static 5), Field ''owner'', Lit ''/'', Field ''repo'',
      Lit (static 6), Field ''owner'', Lit ''/'', Field ''repo'',
      Lit (static 7), Field ''build_time'',
      Lit ''\<newline></div>\<newline>\<newline><script>\<newline>const PACKAGES = '', Field ''pkg_json'',
      Lit (static 8)]\<close>

text \<open>
  Evaluating a formatted string literal: the fields are evaluated from left to right in
  the scope of the function, and a name that is bound nowhere raises \<open>NameError\<close>.
  \<open>env\<close> holds the text of the local variables; the module binds \<open>json\<close>, \<open>os\<close>,
  \<open>sys\<close>, \<open>urllib\<close>, \<open>datetime\<close>, \<open>timezone\<close> and its four functions, and no field
  of the template is one of these names or a builtin.
\<close>

fun fstring :: "(string \<times> string) list \<Rightarrow> segment list \<Rightarrow> error + string" where
  "fstring env [] = Inr []"
| "fstring env (Lit t # segs) =
     (case fstring env segs of Inl e \<Rightarrow> Inl e | Inr r \<Rightarrow> Inr (t @ r))"
| "fstring env (Field n # segs) =
     (case map_of env n of
        None \<Rightarrow> Inl (NameError n)
      | Some v \<Rightarrow> (case fstring env segs of Inl e \<Rightarrow> Inl e | Inr r \<Rightarrow> Inr (v @ r)))"

text \<open>
  The body of \<open>generate_html\<close>: four assignments, then
  \<open>return f'''...'''.format(owner=owner, ..., pkg_json=pkg_json)\<close>. The literal is
  evaluated first, \<open>format\<close> is called on its value. The locals are the four
  parameters and \<open>build_time\<close>, \<open>short_sha\<close>, \<open>pkg_json\<close>, \<open>total_versions\<close>
  (\<open>packages\<close>, a list, is not the text of any field).
\<close>

definition generate_html :: "runtime \<Rightarrow> package list \<Rightarrow> string \<Rightarrow> string \<Rightarrow> string \<Rightarrow> error + string" where
  "generate_html R packages owner repo commit_sha =
     (let build_time = utc_now R;
          short_sha = (if commit_sha \<noteq> [] then take 7 commit_sha else []);
          pj = pkg_json packages;
          tv = total_versions packages
      in case fstring [(''owner'', owner), (''repo'', repo), (''commit_sha'', commit_sha),
                       (''build_time'', build_time), (''short_sha'', short_sha),
                       (''pkg_json'', pj), (''total_versions'', show_nat tv)]
                (html_template (static_text R)) of
           Inl e \<Rightarrow> Inl e
         | Inr t \<Rightarrow>
             str_format R t
               [(''owner'', owner), (''repo'', repo), (''build_time'', build_time),
                (''commit_sha'', commit_sha), (''short_sha'', short_sha),
                (''pkg_count'', show_nat (length packages)), (''ver_count'', show_nat tv),
                (''pkg_json'', pj)])"

subsection \<open>\<open>main\<close>\<close>

text \<open>
  How a run ends: \<open>main\<close> returns, \<open>sys.exit(n)\<close> is called, or an exception leaves
  \<open>main\<close>.
\<close>

datatype outcome = Finished | SystemExit nat | Uncaught error

text \<open>
  \<open>argv\<close> is \<open>sys.argv\<close>: the script name, then the positional arguments.
  \<open>site_index\<close> is the content of \<open>_site/index.html\<close>.
\<close>

definition main :: "runtime \<Rightarrow> network \<Rightarrow> string list \<Rightarrow> state \<Rightarrow> outcome \<times> state" where
  "main R U argv s =
     (if length argv < 4 then (SystemExit 1, s\<lparr>stdout := stdout s @ [Usage]\<rparr>)
      else
        let owner = argv ! 1; repo = argv ! 2; token = argv ! 3;
            commit_sha = (if length argv > 4 then argv ! 4 else '''');
            s1 = s\<lparr>stdout := stdout s @ [Fetching_packages owner repo]\<rparr>
        in case fetch_packages U owner token s1 of
             (Inl e, s2) \<Rightarrow> (Uncaught e, s2)
           | (Inr packages, s2) \<Rightarrow>
               (let s3 = s2\<lparr>stdout := stdout s2 @ [Found_packages (length packages)]\<rparr> in
                case generate_html R packages owner repo commit_sha of
                  Inl e \<Rightarrow> (Uncaught e, s3)
                | Inr html \<Rightarrow>
                    (Finished,
                     s3\<lparr>site_index := Some html,
                        stdout := stdout s3 @ [Generated (length html)]\<rparr>)))"


section \<open>Describing a run\<close>

text \<open>The \<open>API error\<close> lines of the error stream, written by \<open>api_get\<close> alone.\<close>

fun is_API_error :: "err_line \<Rightarrow> bool" where
  "is_API_error (API_error c u b) = True"
| "is_API_error (Unexpected_response x) = False"

text \<open>\<open>isinstance(x, list)\<close>.\<close>

fun is_list :: "json \<Rightarrow> bool" where
  "is_list (JList xs) = True"
| "is_list x = False"

text \<open>
  \<open>built U owner token k pkg p\<close>: the record \<open>p\<close> is what a round of the loop in
  \<open>fetch_packages\<close> makes of the descriptor \<open>pkg\<close> when its versions request is the
  \<open>k\<close>-th call of the run.
\<close>

definition built :: "network \<Rightarrow> string \<Rightarrow> string \<Rightarrow> nat \<Rightarrow> json \<Rightarrow> package \<Rightarrow> bool" where
  "built U owner token k pkg p =
     (case pkg of
        JDict kvs \<Rightarrow>
          get_default kvs ''name'' (JString '''') = JString (name p)
          \<and> package_type p = get_default kvs ''package_type'' (JString ''maven'')
          \<and> html_url p = get_default kvs ''html_url'' (JString '''')
          \<and> created_at p = get_default kvs ''created_at'' (JString '''')
          \<and> updated_at p = get_default kvs ''updated_at'' (JString '''')
          \<and> (case U k (api_request (versions_url owner (encode_slashes (name p))) token) of
                Response (Inr j) \<Rightarrow> version_records j = Inr (versions p)
              | Status_error c (Inr b) \<Rightarrow> versions p = []
              | _ \<Rightarrow> False)
      | _ \<Rightarrow> False)"

text \<open>
  What the versions call of the package named \<open>n\<close> writes to the error stream when
  it is the \<open>k\<close>-th call of the run: one \<open>API error\<close> line when the reply is an HTTP
  status error whose body decodes, nothing otherwise.
\<close>

definition api_error_lines :: "network \<Rightarrow> string \<Rightarrow> string \<Rightarrow> nat \<Rightarrow> string \<Rightarrow> err_line list" where
  "api_error_lines U owner token k n =
     (case U k (api_request (versions_url owner (encode_slashes n)) token) of
        Status_error code (Inr body) \<Rightarrow>
          [API_error code (versions_url owner (encode_slashes n)) body]
      | _ \<Rightarrow> [])"

subsection \<open>Example runs\<close>

text \<open>The state of a process that starts.\<close>

definition start :: state where
  "start = \<lparr>calls = 0, stdout = [], stderr = [], site_index = None\<rparr>"

text \<open>
  The account of the specification's example: \<open>b-lib\<close> with version \<open>1.0.0\<close>, listed
  first, and \<open>a-lib\<close> with versions \<open>2.0.0-SNAPSHOT\<close> and \<open>1.0.0\<close>.
\<close>

definition example_net :: network where
  "example_net k req =
     (if k = 0 then
        Response (Inr (JList [JDict [(''name'', JString ''b-lib'')],
                              JDict [(''name'', JString ''a-lib''),
                                     (''html_url'', JString ''https://example.org/a-lib'')]]))
      else if k = 1 then
        Response (Inr (JList [JDict [(''name'', JString ''1.0.0'')]]))
      else
        Response (Inr (JList [JDict [(''name'', JString ''2.0.0-SNAPSHOT''),
                                     (''updated_at'', JString ''2024-05-01T10:00:00Z'')],
                              JDict [(''name'', JString ''1.0.0'')]])))"

definition b_lib :: package where
  "b_lib = \<lparr>name = ''b-lib'', package_type = JString ''maven'', html_url = JString '''',
            created_at = JString '''', updated_at = JString '''',
            versions = [\<lparr>v_name = JString ''1.0.0'', v_created_at = JString '''',
                         v_updated_at = JString '''', v_html_url = JString ''''\<rparr>]\<rparr>"

definition a_lib :: package where
  "a_lib = \<lparr>name = ''a-lib'', package_type = JString ''maven'',
            html_url = JString ''https://example.org/a-lib'',
            created_at = JString '''', updated_at = JString '''',
            versions = [\<lparr>v_name = JString ''2.0.0-SNAPSHOT'', v_created_at = JString '''',
                         v_updated_at = JString ''2024-05-01T10:00:00Z'',
                         v_html_url = JString ''''\<rparr>,
                        \<lparr>v_name = JString ''1.0.0'', v_created_at = JString '''',
                         v_updated_at = JString '''', v_html_url = JString ''''\<rparr>]\<rparr>"

text \<open>
  An account with one package, \<open>a-lib\<close>, whose descriptor has a name and nothing else;
  every versions request is answered with status 200 and a JSON object.
\<close>

definition object_net :: network where
  "object_net k req =
     (if k = 0 then Response (Inr (JList [JDict [(''name'', JString ''a-lib'')]]))
      else Response (Inr (JDict [(''message'', JString ''Not Found'')])))"

text \<open>
  An account with the packages \<open>a-lib\<close> and \<open>b-lib\<close>: the versions request of the
  first is answered with status 200 and a JSON object, that of the second with status
  404.
\<close>

definition mixed_net :: network where
  "mixed_net k req =
     (if k = 0 then
        Response (Inr (JList [JDict [(''name'', JString ''a-lib'')],
                              JDict [(''name'', JString ''b-lib'')]]))
      else if k = 1 then Response (Inr (JDict [(''message'', JString ''Not Found'')]))
      else Status_error 404 (Inr ''Not Found''))"

text \<open>Every request gets status 502 and a body that is not UTF-8 text.\<close>

definition garbled_net :: network where
  "garbled_net k req = Status_error 502 (Inl UnicodeDecodeError)"

text \<open>Every request gets status 404 and the body \<open>Not Found\<close>.\<close>

definition refusing_net :: network where
  "refusing_net k req = Status_error 404 (Inr ''Not Found'')"


text \<open>A runtime; no result depends on which.\<close>

definition some_runtime :: runtime where
  "some_runtime = \<lparr>static_text = (\<lambda>k. []), utc_now = ''2024-05-01 10:00:00 UTC'',
                    str_format = (\<lambda>t kw. Inr t)\<rparr>"



section \<open>Properties\<close>

subsection \<open>Substrings\<close>

lemma starts_with_append: "starts_with sub (sub @ b)"
  by (induction sub) auto

lemma str_in_self_append: "str_in sub (sub @ b)"
  using starts_with_append[of sub b] by (cases "sub @ b") auto

lemma str_in_append_left: "str_in sub s \<Longrightarrow> str_in sub (a @ s)"
  by (induction a) auto

lemma str_in_middle: "str_in sub (a @ sub @ b)"
  by (simp add: str_in_append_left str_in_self_append)

lemma str_in_versions_url: "str_in ''versions'' (versions_url owner enc)"
proof -
  have "versions_url owner enc =
      (''https://api.github.com/users/'' @ owner @ ''/packages/maven/'' @ enc @ ''/'')
        @ ''versions'' @ ''?per_page=50''"
    by (simp add: versions_url_def)
  then show ?thesis
    by (simp only: str_in_middle)
qed

lemma str_in_packages_url: "str_in ''packages'' (packages_url owner)"
proof -
  have "packages_url owner =
      (''https://api.github.com/users/'' @ owner @ ''/'')
        @ ''packages'' @ ''?package_type=maven&per_page=100''"
    by (simp add: packages_url_def)
  then show ?thesis
    by (simp only: str_in_middle)
qed

subsection \<open>One call, one round, the loop\<close>

lemma api_get_cases:
  "api_get U u token s =
     (case U (calls s) (api_request u token) of
        Response r \<Rightarrow> (r, s\<lparr>calls := Suc (calls s)\<rparr>)
      | Status_error code (Inr body) \<Rightarrow>
          (Inr (if str_in ''versions'' u \<or> str_in ''packages'' u then JList [] else JDict []),
           s\<lparr>calls := Suc (calls s), stderr := stderr s @ [API_error code u body]\<rparr>)
      | Status_error code (Inl e) \<Rightarrow> (Inl e, s\<lparr>calls := Suc (calls s)\<rparr>)
      | Failed e \<Rightarrow> (Inl e, s\<lparr>calls := Suc (calls s)\<rparr>))"
  by (simp add: api_get_def Let_def split: reply.splits sum.splits)

lemma api_get_state:
  assumes "api_get U u token s = (r, s')"
  shows "calls s' = Suc (calls s) \<and> stdout s' = stdout s \<and> site_index s' = site_index s
         \<and> (\<exists>es. stderr s' = stderr s @ es \<and> list_all is_API_error es)"
  using assms by (auto simp: api_get_cases split: reply.splits sum.splits)

lemma version_record_Inr:
  "version_record x = Inr r \<Longrightarrow>
     \<exists>vkvs. x = JDict vkvs
       \<and> r = \<lparr>v_name = get_default vkvs ''name'' (JString ''''),
               v_created_at = get_default vkvs ''created_at'' (JString ''''),
               v_updated_at = get_default vkvs ''updated_at'' (JString ''''),
               v_html_url = get_default vkvs ''html_url'' (JString '''')\<rparr>"
  by (cases x) auto

lemma version_list_Inr:
  "version_list vs = Inr rs \<Longrightarrow>
     length rs = length vs \<and> (\<forall>j<length vs. version_record (vs ! j) = Inr (rs ! j))"
proof (induction vs arbitrary: rs)
  case Nil
  then show ?case by simp
next
  case (Cons v vs)
  from Cons.prems obtain r rs' where r: "version_record v = Inr r"
    and rs': "version_list vs = Inr rs'" and rs: "rs = r # rs'"
    by (auto split: sum.splits)
  from Cons.IH[OF rs'] r rs show ?case
    by (auto simp: nth_Cons split: nat.splits)
qed

lemma version_records_not_list: "\<not> is_list j \<Longrightarrow> version_records j = Inr []"
  by (cases j) auto

lemma fetch_one_Inr:
  assumes "fetch_one U owner token pkg s = (Inr p, s')"
  shows "built U owner token (calls s) pkg p \<and> calls s' = Suc (calls s)
         \<and> site_index s' = site_index s
         \<and> (\<exists>es. stderr s' = stderr s @ es \<and> list_all is_API_error es)"
proof (cases pkg)
  case (JDict kvs)
  show ?thesis
  proof (cases "get_default kvs ''name'' (JString '''')")
    case (JString n)
    let ?s1 = "s\<lparr>stdout := stdout s @ [Fetching_versions (JString n)]\<rparr>"
    let ?u = "versions_url owner (encode_slashes n)"
    obtain r s2 where ag: "api_get U ?u token ?s1 = (r, s2)"
      by (cases "api_get U ?u token ?s1")
    from assms JDict JString ag obtain vers where r: "r = Inr vers"
      by (cases r) (auto simp: fetch_one_def)
    from assms JDict JString ag r obtain vs where vs: "version_records vers = Inr vs"
      and p: "p = \<lparr>name = n,
                   package_type = get_default kvs ''package_type'' (JString ''maven''),
                   html_url = get_default kvs ''html_url'' (JString ''''),
                   created_at = get_default kvs ''created_at'' (JString ''''),
                   updated_at = get_default kvs ''updated_at'' (JString ''''),
                   versions = vs\<rparr>"
      and s': "s' = s2"
      by (cases "version_records vers") (auto simp: fetch_one_def)
    from api_get_state[OF ag] have st: "calls s2 = Suc (calls s)"
      "site_index s2 = site_index s"
      "\<exists>es. stderr s2 = stderr s @ es \<and> list_all is_API_error es"
      by auto
    have vp: "versions p = vs" "name p = n"
      using p by simp_all
    have "case U (calls s) (api_request ?u token) of
            Response (Inr j) \<Rightarrow> version_records j = Inr (versions p)
          | Status_error c (Inr b) \<Rightarrow> versions p = []
          | _ \<Rightarrow> False"
      unfolding vp
      using ag r vs str_in_versions_url[of owner "encode_slashes n"]
      by (auto simp: api_get_cases split: reply.splits sum.splits)
    moreover have "package_type p = get_default kvs ''package_type'' (JString ''maven'')"
      "html_url p = get_default kvs ''html_url'' (JString '''')"
      "created_at p = get_default kvs ''created_at'' (JString '''')"
      "updated_at p = get_default kvs ''updated_at'' (JString '''')"
      using p by simp_all
    ultimately show ?thesis
      using JDict JString s' st vp(2) by (simp add: built_def)
  qed (use assms JDict in \<open>auto simp: fetch_one_def\<close>)
qed (use assms in \<open>auto simp: fetch_one_def\<close>)

lemma fetch_loop_Inr:
  "fetch_loop U owner token pkgs acc s = (Inr res, s') \<Longrightarrow>
     \<exists>ps. res = acc @ ps \<and> length ps = length pkgs
        \<and> (\<forall>i<length pkgs. built U owner token (calls s + i) (pkgs ! i) (ps ! i))
        \<and> calls s' = calls s + length pkgs \<and> site_index s' = site_index s
        \<and> (\<exists>es. stderr s' = stderr s @ es \<and> list_all is_API_error es)"
proof (induction pkgs arbitrary: acc s)
  case Nil
  then show ?case by simp
next
  case (Cons pkg pkgs)
  from Cons.prems obtain p s1 where one: "fetch_one U owner token pkg s = (Inr p, s1)"
    and rest: "fetch_loop U owner token pkgs (acc @ [p]) s1 = (Inr res, s')"
    by (auto split: prod.splits sum.splits)
  from fetch_one_Inr[OF one] have b: "built U owner token (calls s) pkg p"
    and c: "calls s1 = Suc (calls s)" and f: "site_index s1 = site_index s"
    and e: "\<exists>es. stderr s1 = stderr s @ es \<and> list_all is_API_error es"
    by auto
  from Cons.IH[OF rest] obtain ps where ps: "res = (acc @ [p]) @ ps"
    "length ps = length pkgs"
    "\<forall>i<length pkgs. built U owner token (calls s1 + i) (pkgs ! i) (ps ! i)"
    "calls s' = calls s1 + length pkgs" "site_index s' = site_index s1"
    "\<exists>es. stderr s' = stderr s1 @ es \<and> list_all is_API_error es"
    by auto
  have "\<forall>i<length (pkg # pkgs).
          built U owner token (calls s + i) ((pkg # pkgs) ! i) ((p # ps) ! i)"
    using b ps(3) c by (auto simp: nth_Cons split: nat.splits)
  moreover have "\<exists>es. stderr s' = stderr s @ es \<and> list_all is_API_error es"
    using e ps(6) by auto
  ultimately show ?case
    using ps c f by (intro exI[of _ "p # ps"]) simp
qed

subsection \<open>A run of \<open>fetch_packages\<close>\<close>

lemma fetch_packages_list:
  assumes "fetch_packages U owner token s = (Inr ps, s')"
    and "U (calls s) (api_request (packages_url owner) token) = Response (Inr (JList pkgs))"
  shows "\<exists>rs. ps = sort_key name rs \<and> length rs = length pkgs
          \<and> (\<forall>i<length pkgs. built U owner token (Suc (calls s + i)) (pkgs ! i) (rs ! i))
          \<and> (\<exists>es. stderr s' = stderr s @ es \<and> list_all is_API_error es)"
proof -
  let ?s1 = "s\<lparr>calls := Suc (calls s)\<rparr>"
  from assms obtain rs where loop: "fetch_loop U owner token pkgs [] ?s1 = (Inr rs, s')"
    and ps: "ps = sort_key name rs"
    by (auto simp: fetch_packages_def api_get_cases split: prod.splits sum.splits)
  from fetch_loop_Inr[OF loop] show ?thesis
    using ps by auto
qed

lemma fetch_packages_nonempty:
  assumes "fetch_packages U owner token s = (Inr ps, s')" and "ps \<noteq> []"
  shows "\<exists>pkgs. U (calls s) (api_request (packages_url owner) token)
                  = Response (Inr (JList pkgs))"
  using assms str_in_packages_url[of owner]
  by (auto simp: fetch_packages_def api_get_cases
           split: prod.splits sum.splits reply.splits json.splits)

lemma example_run:
  "fetch_packages example_net ''acme'' ''t'' start =
     (Inr [a_lib, b_lib],
      \<lparr>calls = 3,
       stdout = [Fetching_versions (JString ''b-lib''), Fetching_versions (JString ''a-lib'')],
       stderr = [], site_index = None\<rparr>)"
  by (simp add: fetch_packages_def api_get_cases example_net_def start_def fetch_one_def
        get_default_def a_lib_def b_lib_def)

subsection \<open>The page template never evaluates\<close>

text \<open>
  The field \<open>pkg_count\<close> of line 264 is a keyword of the \<open>format\<close> call, not a
  variable of the function: evaluating the literal raises \<open>NameError\<close> before
  \<open>format\<close> is called, whatever the arguments are.
\<close>

lemma fstring_pkg_count:
  "map_of env ''pkg_count'' = None \<Longrightarrow> map_of env ''owner'' \<noteq> None
   \<Longrightarrow> map_of env ''repo'' \<noteq> None \<Longrightarrow> map_of env ''build_time'' \<noteq> None
   \<Longrightarrow> fstring env (html_template static) = Inl (NameError ''pkg_count'')"
  by (auto simp: html_template_def split: sum.splits)

lemma generate_html_raises:
  "generate_html R packages owner repo commit_sha = Inl (NameError ''pkg_count'')"
  unfolding generate_html_def Let_def
  by (subst fstring_pkg_count) simp_all


subsection \<open>Where a run stops\<close>

lemma fetch_one_calls:
  assumes "fetch_one U owner token pkg s = (r, s')"
  shows "site_index s' = site_index s
       \<and> ((calls s' = calls s \<and> (\<exists>e. r = Inl e))
          \<or> (calls s' = Suc (calls s)
              \<and> ((\<forall>req. U (calls s) req = Failed (URLError reason)) \<longrightarrow> r = Inl (URLError reason))))"
proof (cases "py_get pkg ''name'' (JString '''')")
  case (Inl e)
  with assms show ?thesis by (auto simp: fetch_one_def)
next
  case (Inr nm)
  show ?thesis
  proof (cases "py_replace_slash nm")
    case (Inl e)
    with assms Inr show ?thesis by (auto simp: fetch_one_def)
  next
    case inr: (Inr ne)
    obtain n enc where ne: "ne = (n, enc)" by (cases ne)
    let ?s1 = "s\<lparr>stdout := stdout s @ [Fetching_versions nm]\<rparr>"
    obtain r1 s2 where ag: "api_get U (versions_url owner enc) token ?s1 = (r1, s2)"
      by (cases "api_get U (versions_url owner enc) token ?s1")
    from api_get_state[OF ag] have st: "calls s2 = Suc (calls s)" "site_index s2 = site_index s"
      by auto
    have down: "(\<forall>req. U (calls s) req = Failed (URLError reason)) \<longrightarrow> r1 = Inl (URLError reason)"
      using ag by (auto simp: api_get_cases)
    from assms Inr inr ne ag have s': "s' = s2"
      by (auto simp: fetch_one_def split: sum.splits)
    from assms Inr inr ne ag have "\<And>e. r1 = Inl e \<Longrightarrow> r = Inl e"
      by (auto simp: fetch_one_def)
    with down st s' show ?thesis by auto
  qed
qed

lemma fetch_loop_down:
  "fetch_loop U owner token pkgs acc s = (r, s') \<Longrightarrow>
     site_index s' = site_index s
     \<and> (calls s \<le> k \<longrightarrow> k < calls s' \<longrightarrow> (\<forall>req. U k req = Failed (URLError reason))
          \<longrightarrow> r = Inl (URLError reason))"
proof (induction pkgs arbitrary: acc s)
  case Nil
  then show ?case by auto
next
  case (Cons pkg pkgs)
  obtain r1 s1 where one: "fetch_one U owner token pkg s = (r1, s1)"
    by (cases "fetch_one U owner token pkg s")
  note c = fetch_one_calls[OF one, of reason]
  show ?case
  proof (cases r1)
    case (Inl e)
    with Cons.prems one have "r = Inl e" "s' = s1" by auto
    with c Inl show ?thesis by (cases "k = calls s") auto
  next
    case (Inr p)
    with Cons.prems one have rest: "fetch_loop U owner token pkgs (acc @ [p]) s1 = (r, s')"
      by auto
    from c Inr have c1: "calls s1 = Suc (calls s)" "site_index s1 = site_index s"
      "\<not> (\<forall>req. U (calls s) req = Failed (URLError reason))" by auto
    from Cons.IH[OF rest] c1 show ?thesis
      by (cases "k = calls s") auto
  qed
qed

lemma fetch_packages_down:
  assumes "fetch_packages U owner token s = (r, s')"
  shows "site_index s' = site_index s
     \<and> (calls s \<le> k \<longrightarrow> k < calls s' \<longrightarrow> (\<forall>req. U k req = Failed (URLError reason))
          \<longrightarrow> r = Inl (URLError reason))"
proof -
  let ?u = "packages_url owner"
  obtain r0 s1 where ag: "api_get U ?u token s = (r0, s1)"
    by (cases "api_get U ?u token s")
  from api_get_state[OF ag] have st: "calls s1 = Suc (calls s)" "site_index s1 = site_index s"
    by auto
  have down: "(\<forall>req. U (calls s) req = Failed (URLError reason)) \<longrightarrow> r0 = Inl (URLError reason)"
    using ag by (auto simp: api_get_cases)
  show ?thesis
  proof (cases r0)
    case (Inl e)
    with assms ag have "r = Inl e" "s' = s1" by (auto simp: fetch_packages_def)
    with st down Inl show ?thesis by (cases "k = calls s") auto
  next
    case (Inr j)
    with down have nd: "\<not> (\<forall>req. U (calls s) req = Failed (URLError reason))" by auto
    show ?thesis
    proof (cases "is_list j")
      case True
      then obtain pkgs where j: "j = JList pkgs" by (cases j) auto
      obtain r2 s2 where loop: "fetch_loop U owner token pkgs [] s1 = (r2, s2)"
        by (cases "fetch_loop U owner token pkgs [] s1")
      from assms ag Inr j loop have s': "s' = s2" and r: "\<And>e. r2 = Inl e \<Longrightarrow> r = Inl e"
        by (auto simp: fetch_packages_def split: sum.splits)
      from fetch_loop_down[OF loop, of k reason] st s' r nd show ?thesis
        by (cases "k = calls s") auto
    next
      case False
      with assms ag Inr have "s' = s1\<lparr>stderr := stderr s1 @ [Unexpected_response j]\<rparr>"
        by (cases j) (auto simp: fetch_packages_def)
      with st nd show ?thesis by (cases "k = calls s") auto
    qed
  qed
qed



subsection \<open>What a returning run has built and printed\<close>

lemma fetch_packages_Inr_sorted:
  "fetch_packages U owner token s = (Inr ps, s') \<Longrightarrow> sorted (map name ps)"
  by (auto simp: fetch_packages_def split: prod.splits sum.splits json.splits)

lemma built_fields:
  assumes "built U owner token k pkg p"
  shows "\<exists>kvs. pkg = JDict kvs
         \<and> JString (name p) = get_default kvs ''name'' (JString '''')
         \<and> package_type p = get_default kvs ''package_type'' (JString ''maven'')
         \<and> html_url p = get_default kvs ''html_url'' (JString '''')
         \<and> created_at p = get_default kvs ''created_at'' (JString '''')
         \<and> updated_at p = get_default kvs ''updated_at'' (JString '''')
         \<and> (case U k (api_request (versions_url owner (encode_slashes (name p))) token) of
               Response (Inr (JList vs)) \<Rightarrow>
                 length (versions p) = length vs
                 \<and> (\<forall>j<length vs. \<exists>vkvs. vs ! j = JDict vkvs
                       \<and> versions p ! j =
                           \<lparr>v_name = get_default vkvs ''name'' (JString ''''),
                            v_created_at = get_default vkvs ''created_at'' (JString ''''),
                            v_updated_at = get_default vkvs ''updated_at'' (JString ''''),
                            v_html_url = get_default vkvs ''html_url'' (JString '''')\<rparr>)
             | Response (Inr x) \<Rightarrow> versions p = []
             | Status_error c (Inr b) \<Rightarrow> versions p = []
             | _ \<Rightarrow> False)"
proof -
  from assms obtain kvs where kvs: "pkg = JDict kvs"
    by (cases pkg) (auto simp: built_def)
  let ?r = "U k (api_request (versions_url owner (encode_slashes (name p))) token)"
  from assms kvs have f: "get_default kvs ''name'' (JString '''') = JString (name p)"
    "package_type p = get_default kvs ''package_type'' (JString ''maven'')"
    "html_url p = get_default kvs ''html_url'' (JString '''')"
    "created_at p = get_default kvs ''created_at'' (JString '''')"
    "updated_at p = get_default kvs ''updated_at'' (JString '''')"
    and v: "case ?r of Response (Inr j) \<Rightarrow> version_records j = Inr (versions p)
             | Status_error c (Inr b) \<Rightarrow> versions p = [] | _ \<Rightarrow> False"
    by (simp_all add: built_def)
  have "case ?r of
          Response (Inr (JList vs)) \<Rightarrow>
            length (versions p) = length vs
            \<and> (\<forall>j<length vs. \<exists>vkvs. vs ! j = JDict vkvs
                  \<and> versions p ! j =
                      \<lparr>v_name = get_default vkvs ''name'' (JString ''''),
                       v_created_at = get_default vkvs ''created_at'' (JString ''''),
                       v_updated_at = get_default vkvs ''updated_at'' (JString ''''),
                       v_html_url = get_default vkvs ''html_url'' (JString '''')\<rparr>)
        | Response (Inr x) \<Rightarrow> versions p = []
        | Status_error c (Inr b) \<Rightarrow> versions p = []
        | _ \<Rightarrow> False"
  proof (cases ?r)
    case (Response x)
    with v obtain j where j: "x = Inr j" "version_records j = Inr (versions p)"
      by (cases x) auto
    show ?thesis
    proof (cases "is_list j")
      case True
      then obtain vs where vs: "j = JList vs"
        by (cases j) auto
      with j have "version_list vs = Inr (versions p)"
        by simp
      from version_list_Inr[OF this] Response j vs show ?thesis
        by (auto dest!: version_record_Inr)
    next
      case False
      then have "version_records j = Inr []"
        by (rule version_records_not_list)
      with j have "versions p = []"
        by simp
      with Response j False show ?thesis
        by (cases j) simp_all
    qed
  next
    case (Status_error c x)
    with v show ?thesis
      by (cases x) auto
  next
    case (Failed r)
    with v show ?thesis
      by simp
  qed
  with kvs f show ?thesis
    by simp
qed

lemma api_get_stderr:
  assumes "api_get U u token s = (r, s')"
  shows "stderr s' = stderr s @
           (case U (calls s) (api_request u token) of
              Status_error code (Inr body) \<Rightarrow> [API_error code u body] | _ \<Rightarrow> [])"
  using assms by (auto simp: api_get_cases split: reply.splits sum.splits)

lemma api_get_stdout:
  assumes "api_get U u token s = (r, s')"
  shows "stdout s' = stdout s"
  using assms by (auto simp: api_get_cases split: reply.splits sum.splits)

lemma fetch_one_stdout:
  assumes "fetch_one U owner token pkg s = (Inr p, s')"
  shows "stdout s' = stdout s @ [Fetching_versions (JString (name p))]"
proof (cases pkg)
  case (JDict kvs)
  show ?thesis
  proof (cases "get_default kvs ''name'' (JString '''')")
    case (JString n)
    let ?s1 = "s\<lparr>stdout := stdout s @ [Fetching_versions (JString n)]\<rparr>"
    let ?u = "versions_url owner (encode_slashes n)"
    obtain r s2 where ag: "api_get U ?u token ?s1 = (r, s2)"
      by (cases "api_get U ?u token ?s1")
    from assms JDict JString ag have "s' = s2 \<and> name p = n"
      by (auto simp: fetch_one_def split: sum.splits)
    with api_get_stdout[OF ag] show ?thesis
      by simp
  qed (use assms JDict in \<open>auto simp: fetch_one_def\<close>)
qed (use assms in \<open>auto simp: fetch_one_def\<close>)

lemma fetch_one_stderr:
  assumes "fetch_one U owner token pkg s = (Inr p, s')"
  shows "stderr s' = stderr s @ api_error_lines U owner token (calls s) (name p)"
proof (cases pkg)
  case (JDict kvs)
  show ?thesis
  proof (cases "get_default kvs ''name'' (JString '''')")
    case (JString n)
    let ?s1 = "s\<lparr>stdout := stdout s @ [Fetching_versions (JString n)]\<rparr>"
    let ?u = "versions_url owner (encode_slashes n)"
    obtain r s2 where ag: "api_get U ?u token ?s1 = (r, s2)"
      by (cases "api_get U ?u token ?s1")
    from assms JDict JString ag have "s' = s2 \<and> name p = n"
      by (auto simp: fetch_one_def split: sum.splits)
    with api_get_stderr[OF ag] show ?thesis
      by (simp add: api_error_lines_def)
  qed (use assms JDict in \<open>auto simp: fetch_one_def\<close>)
qed (use assms in \<open>auto simp: fetch_one_def\<close>)

lemma fetch_loop_lines:
  "fetch_loop U owner token pkgs acc s = (Inr res, s') \<Longrightarrow>
     \<exists>ps. res = acc @ ps \<and> length ps = length pkgs
        \<and> (\<forall>i<length pkgs. built U owner token (calls s + i) (pkgs ! i) (ps ! i))
        \<and> stderr s' = stderr s @
             concat (map (\<lambda>i. api_error_lines U owner token (calls s + i) (name (ps ! i)))
                       [0..<length pkgs])
        \<and> stdout s' = stdout s @ map (\<lambda>p. Fetching_versions (JString (name p))) ps"
proof (induction pkgs arbitrary: acc s)
  case Nil
  then show ?case by simp
next
  case (Cons pkg pkgs)
  from Cons.prems obtain p s1 where one: "fetch_one U owner token pkg s = (Inr p, s1)"
    and rest: "fetch_loop U owner token pkgs (acc @ [p]) s1 = (Inr res, s')"
    by (auto split: prod.splits sum.splits)
  from fetch_one_Inr[OF one] have b: "built U owner token (calls s) pkg p"
    and c: "calls s1 = Suc (calls s)"
    by auto
  note e = fetch_one_stderr[OF one]
  note o = fetch_one_stdout[OF one]
  from Cons.IH[OF rest] obtain ps where ps: "res = (acc @ [p]) @ ps"
    "length ps = length pkgs"
    "\<forall>i<length pkgs. built U owner token (calls s1 + i) (pkgs ! i) (ps ! i)"
    "stderr s' = stderr s1 @
       concat (map (\<lambda>i. api_error_lines U owner token (calls s1 + i) (name (ps ! i)))
                 [0..<length pkgs])"
    "stdout s' = stdout s1 @ map (\<lambda>p. Fetching_versions (JString (name p))) ps"
    by auto
  have "\<forall>i<length (pkg # pkgs).
          built U owner token (calls s + i) ((pkg # pkgs) ! i) ((p # ps) ! i)"
    using b ps(3) c by (auto simp: nth_Cons split: nat.splits)
  moreover have "stderr s' = stderr s @
       concat (map (\<lambda>i. api_error_lines U owner token (calls s + i) (name ((p # ps) ! i)))
                 [0..<length (pkg # pkgs)])"
    using e ps(4) c by (simp add: map_upt_Suc del: upt_Suc)
  moreover have "stdout s' = stdout s @ map (\<lambda>p. Fetching_versions (JString (name p))) (p # ps)"
    using o ps(5) by simp
  ultimately show ?case
    using ps(1,2) by (intro exI[of _ "p # ps"]) simp
qed

lemma fetch_packages_lines:
  assumes "fetch_packages U owner token s = (Inr ps, s')"
    and "U (calls s) (api_request (packages_url owner) token) = Response (Inr (JList pkgs))"
  shows "\<exists>rs. ps = sort_key name rs \<and> length rs = length pkgs
          \<and> (\<forall>i<length pkgs. built U owner token (Suc (calls s + i)) (pkgs ! i) (rs ! i))
          \<and> stderr s' = stderr s @
               concat (map (\<lambda>i. api_error_lines U owner token (Suc (calls s + i)) (name (rs ! i)))
                         [0..<length pkgs])
          \<and> stdout s' = stdout s @ map (\<lambda>p. Fetching_versions (JString (name p))) rs"
proof -
  let ?s1 = "s\<lparr>calls := Suc (calls s)\<rparr>"
  from assms obtain rs where loop: "fetch_loop U owner token pkgs [] ?s1 = (Inr rs, s')"
    and ps: "ps = sort_key name rs"
    by (auto simp: fetch_packages_def api_get_cases split: prod.splits sum.splits)
  from fetch_loop_lines[OF loop] show ?thesis
    using ps by auto
qed

lemma concat_map_upt_split:
  "i < n \<Longrightarrow> concat (map f [0..<n]) = concat (map f [0..<i]) @ f i @ concat (map f [Suc i..<n])"
proof -
  assume "i < n"
  then have "[0..<n] = [0..<i] @ i # [Suc i..<n]"
    by (metis upt_conv_Cons le0 le_add_diff_inverse less_imp_le_nat upt_add_eq_append)
  then show ?thesis by simp
qed


subsection \<open>The serialization\<close>










section \<open>The claims\<close>

subsection \<open>The fetcher\<close>

text \<open>
  C3. The records that \<open>fetch_packages\<close> returns are sorted by name, ascending in the
  order of character codes (so \<open>B\<close> comes before \<open>a\<close>). The package list of the
  output is not: there is no output. Whenever a run of \<open>main\<close> gets that sorted
  sequence from \<open>fetch_packages\<close>, rendering it raises \<open>NameError\<close> for
  \<open>pkg_count\<close>, the run ends with that exception after the \<open>Found\<close> line, and
  \<open>_site/index.html\<close> is left as it was.
\<close>

theorem sorted_list_never_embedded:
  assumes "4 \<le> length argv"
    and "fetch_packages U (argv ! 1) (argv ! 3)
           (s\<lparr>stdout := stdout s @ [Fetching_packages (argv ! 1) (argv ! 2)]\<rparr>) = (Inr ps, s')"
  shows "sorted (map name ps)
       \<and> generate_html R ps (argv ! 1) (argv ! 2) commit_sha = Inl (NameError ''pkg_count'')
       \<and> main R U argv s
           = (Uncaught (NameError ''pkg_count''),
              s'\<lparr>stdout := stdout s' @ [Found_packages (length ps)]\<rparr>)
       \<and> site_index s' = site_index s"
proof -
  from assms(2) have "sorted (map name ps)"
    by (rule fetch_packages_Inr_sorted)
  moreover have "generate_html R ps (argv ! 1) (argv ! 2) commit_sha = Inl (NameError ''pkg_count'')"
    by (rule generate_html_raises)
  moreover from assms have "main R U argv s
           = (Uncaught (NameError ''pkg_count''),
              s'\<lparr>stdout := stdout s' @ [Found_packages (length ps)]\<rparr>)"
    by (simp add: main_def Let_def generate_html_raises)
  moreover from fetch_packages_down[OF assms(2), of 0 "''''"] have "site_index s' = site_index s"
    by simp
  ultimately show ?thesis
    by (intro conjI)
qed

theorem sorted_list_never_embedded_witness:
  "4 \<le> length [''generate-index.py'', ''acme'', ''widgets'', ''t'']
   \<and> fst (fetch_packages example_net ''acme'' ''t''
            (start\<lparr>stdout := stdout start @ [Fetching_packages ''acme'' ''widgets'']\<rparr>))
       = Inr [a_lib, b_lib]
   \<and> map name [a_lib, b_lib] = [''a-lib'', ''b-lib'']
   \<and> sorted (map name [a_lib, b_lib])
   \<and> main some_runtime example_net [''generate-index.py'', ''acme'', ''widgets'', ''t''] start
       = (Uncaught (NameError ''pkg_count''),
          \<lparr>calls = 3,
           stdout = [Fetching_packages ''acme'' ''widgets'',
                     Fetching_versions (JString ''b-lib''), Fetching_versions (JString ''a-lib''),
                     Found_packages 2],
           stderr = [], site_index = None\<rparr>)"
proof -
  let ?argv = "[''generate-index.py'', ''acme'', ''widgets'', ''t'']"
  let ?s' = "\<lparr>calls = 3,
             stdout = [Fetching_packages ''acme'' ''widgets'',
                       Fetching_versions (JString ''b-lib''), Fetching_versions (JString ''a-lib'')],
             stderr = [], site_index = None\<rparr>"
  have len: "4 \<le> length ?argv"
    by simp
  have run: "fetch_packages example_net (?argv ! 1) (?argv ! 3)
               (start\<lparr>stdout := stdout start @ [Fetching_packages (?argv ! 1) (?argv ! 2)]\<rparr>)
             = (Inr [a_lib, b_lib], ?s')"
    by (simp add: fetch_packages_def api_get_cases example_net_def start_def fetch_one_def
          get_default_def a_lib_def b_lib_def)
  have names: "map name [a_lib, b_lib] = [''a-lib'', ''b-lib'']"
    by (simp add: a_lib_def b_lib_def)
  from sorted_list_never_embedded[OF len run, of some_runtime "[]"]
  have "sorted (map name [a_lib, b_lib])"
    and "main some_runtime example_net ?argv start
           = (Uncaught (NameError ''pkg_count''),
              ?s'\<lparr>stdout := stdout ?s' @ [Found_packages (length [a_lib, b_lib])]\<rparr>)"
    by blast+
  with len run names show ?thesis
    by simp
qed

text \<open>
  C4, as stated: every field missing from a descriptor becomes the empty string. The
  package type does not: the descriptor of \<open>object_net\<close> has a name only, and its
  record has the package type \<open>maven\<close>.
\<close>

theorem package_type_default_counterexample:
  "map package_type (projr (fst (fetch_packages object_net ''acme'' ''t'' start)))
     = [JString ''maven'']"
  by (simp add: fetch_packages_def api_get_cases object_net_def start_def fetch_one_def
        get_default_def)

text \<open>
  C4, amended. A returning run makes one record of every descriptor of the packages
  reply, in the order of the reply (the result is that sequence, sorted by name), with
  \<open>get\<close>-with-default: a missing name, web link, creation or update timestamp
  becomes the empty string, a missing package type becomes \<open>maven\<close>. When the
  versions reply of the package is a list, the record has one version record for every
  descriptor of that list, in its order, the four fields defaulted to the empty
  string; when it is another value or an HTTP status error, the record has no
  versions.
\<close>

theorem fetch_packages_defaults:
  assumes "fetch_packages U owner token s = (Inr ps, s')"
    and "U (calls s) (api_request (packages_url owner) token) = Response (Inr (JList pkgs))"
  shows "\<exists>rs. ps = sort_key name rs \<and> length rs = length pkgs
         \<and> (\<forall>i<length pkgs. \<exists>kvs. pkgs ! i = JDict kvs
              \<and> JString (name (rs ! i)) = get_default kvs ''name'' (JString '''')
              \<and> package_type (rs ! i) = get_default kvs ''package_type'' (JString ''maven'')
              \<and> html_url (rs ! i) = get_default kvs ''html_url'' (JString '''')
              \<and> created_at (rs ! i) = get_default kvs ''created_at'' (JString '''')
              \<and> updated_at (rs ! i) = get_default kvs ''updated_at'' (JString '''')
              \<and> (case U (Suc (calls s + i))
                         (api_request (versions_url owner (encode_slashes (name (rs ! i)))) token) of
                    Response (Inr (JList vs)) \<Rightarrow>
                      length (versions (rs ! i)) = length vs
                      \<and> (\<forall>j<length vs. \<exists>vkvs. vs ! j = JDict vkvs
                            \<and> versions (rs ! i) ! j =
                                \<lparr>v_name = get_default vkvs ''name'' (JString ''''),
                                 v_created_at = get_default vkvs ''created_at'' (JString ''''),
                                 v_updated_at = get_default vkvs ''updated_at'' (JString ''''),
                                 v_html_url = get_default vkvs ''html_url'' (JString '''')\<rparr>)
                  | Response (Inr x) \<Rightarrow> versions (rs ! i) = []
                  | Status_error c (Inr b) \<Rightarrow> versions (rs ! i) = []
                  | _ \<Rightarrow> False))"
proof -
  from fetch_packages_list[OF assms] obtain rs where ps: "ps = sort_key name rs"
    and len: "length rs = length pkgs"
    and b: "\<forall>i<length pkgs. built U owner token (Suc (calls s + i)) (pkgs ! i) (rs ! i)"
    by auto
  show ?thesis
  proof (intro exI[of _ rs] conjI allI impI)
    fix i assume "i < length pkgs"
    with b have "built U owner token (Suc (calls s + i)) (pkgs ! i) (rs ! i)"
      by simp
    then show "\<exists>kvs. pkgs ! i = JDict kvs
              \<and> JString (name (rs ! i)) = get_default kvs ''name'' (JString '''')
              \<and> package_type (rs ! i) = get_default kvs ''package_type'' (JString ''maven'')
              \<and> html_url (rs ! i) = get_default kvs ''html_url'' (JString '''')
              \<and> created_at (rs ! i) = get_default kvs ''created_at'' (JString '''')
              \<and> updated_at (rs ! i) = get_default kvs ''updated_at'' (JString '''')
              \<and> (case U (Suc (calls s + i))
                         (api_request (versions_url owner (encode_slashes (name (rs ! i)))) token) of
                    Response (Inr (JList vs)) \<Rightarrow>
                      length (versions (rs ! i)) = length vs
                      \<and> (\<forall>j<length vs. \<exists>vkvs. vs ! j = JDict vkvs
                            \<and> versions (rs ! i) ! j =
                                \<lparr>v_name = get_default vkvs ''name'' (JString ''''),
                                 v_created_at = get_default vkvs ''created_at'' (JString ''''),
                                 v_updated_at = get_default vkvs ''updated_at'' (JString ''''),
                                 v_html_url = get_default vkvs ''html_url'' (JString '''')\<rparr>)
                  | Response (Inr x) \<Rightarrow> versions (rs ! i) = []
                  | Status_error c (Inr b) \<Rightarrow> versions (rs ! i) = []
                  | _ \<Rightarrow> False)"
      by (rule built_fields)
  qed (rule ps, rule len)
qed

theorem fetch_packages_defaults_witness:
  "fst (fetch_packages example_net ''acme'' ''t'' start) = Inr [a_lib, b_lib]
   \<and> example_net (calls start) (api_request (packages_url ''acme'') ''t'')
       = Response (Inr (JList [JDict [(''name'', JString ''b-lib'')],
                               JDict [(''name'', JString ''a-lib''),
                                      (''html_url'', JString ''https://example.org/a-lib'')]]))
   \<and> (\<exists>rs::package list. [a_lib, b_lib] = sort_key name rs \<and> length rs = 2
         \<and> name (rs ! 0) = ''b-lib'' \<and> package_type (rs ! 0) = JString ''maven''
         \<and> html_url (rs ! 0) = JString ''''
         \<and> versions (rs ! 0) = [\<lparr>v_name = JString ''1.0.0'', v_created_at = JString '''',
                                  v_updated_at = JString '''', v_html_url = JString ''''\<rparr>]
         \<and> name (rs ! 1) = ''a-lib''
         \<and> html_url (rs ! 1) = JString ''https://example.org/a-lib''
         \<and> length (versions (rs ! 1)) = 2
         \<and> v_updated_at (versions (rs ! 1) ! 0) = JString ''2024-05-01T10:00:00Z''
         \<and> v_updated_at (versions (rs ! 1) ! 1) = JString '''')"
proof -
  let ?pkgs = "[JDict [(''name'', JString ''b-lib'')],
                JDict [(''name'', JString ''a-lib''),
                       (''html_url'', JString ''https://example.org/a-lib'')]]"
  have reply: "example_net (calls start) (api_request (packages_url ''acme'') ''t'')
                 = Response (Inr (JList ?pkgs))"
    by (simp add: example_net_def start_def)
  from fetch_packages_defaults[OF example_run reply]
  obtain rs where ps: "[a_lib, b_lib] = sort_key name rs"
    and len: "length rs = length ?pkgs"
    and f: "\<And>i. i < length ?pkgs \<Longrightarrow> \<exists>kvs. ?pkgs ! i = JDict kvs
              \<and> JString (name (rs ! i)) = get_default kvs ''name'' (JString '''')
              \<and> package_type (rs ! i) = get_default kvs ''package_type'' (JString ''maven'')
              \<and> html_url (rs ! i) = get_default kvs ''html_url'' (JString '''')
              \<and> created_at (rs ! i) = get_default kvs ''created_at'' (JString '''')
              \<and> updated_at (rs ! i) = get_default kvs ''updated_at'' (JString '''')
              \<and> (case example_net (Suc (calls start + i))
                         (api_request (versions_url ''acme'' (encode_slashes (name (rs ! i)))) ''t'') of
                    Response (Inr (JList vs)) \<Rightarrow>
                      length (versions (rs ! i)) = length vs
                      \<and> (\<forall>j<length vs. \<exists>vkvs. vs ! j = JDict vkvs
                            \<and> versions (rs ! i) ! j =
                                \<lparr>v_name = get_default vkvs ''name'' (JString ''''),
                                 v_created_at = get_default vkvs ''created_at'' (JString ''''),
                                 v_updated_at = get_default vkvs ''updated_at'' (JString ''''),
                                 v_html_url = get_default vkvs ''html_url'' (JString '''')\<rparr>)
                  | Response (Inr x) \<Rightarrow> versions (rs ! i) = []
                  | Status_error c (Inr b) \<Rightarrow> versions (rs ! i) = []
                  | _ \<Rightarrow> False)"
    by blast
  have c: "calls start = 0"
    by (simp add: start_def)
  from f[of 0] have r0: "name (rs ! 0) = ''b-lib''" "package_type (rs ! 0) = JString ''maven''"
    "html_url (rs ! 0) = JString ''''"
    and l0: "length (versions (rs ! 0)) = Suc 0"
    and v0: "versions (rs ! 0) ! 0 = \<lparr>v_name = JString ''1.0.0'', v_created_at = JString '''',
                                  v_updated_at = JString '''', v_html_url = JString ''''\<rparr>"
    by (simp_all add: c example_net_def get_default_def)
  from l0 v0 have vs0: "versions (rs ! 0) = [\<lparr>v_name = JString ''1.0.0'', v_created_at = JString '''',
                                  v_updated_at = JString '''', v_html_url = JString ''''\<rparr>]"
    by (cases "versions (rs ! 0)") simp_all
  from f[of "Suc 0"] have r1: "name (rs ! Suc 0) = ''a-lib''"
    "html_url (rs ! Suc 0) = JString ''https://example.org/a-lib''"
    and l1: "length (versions (rs ! Suc 0)) = 2"
    and v1: "\<forall>j<2. \<exists>vkvs. [JDict [(''name'', JString ''2.0.0-SNAPSHOT''),
                                   (''updated_at'', JString ''2024-05-01T10:00:00Z'')],
                            JDict [(''name'', JString ''1.0.0'')]] ! j = JDict vkvs
                  \<and> versions (rs ! Suc 0) ! j =
                      \<lparr>v_name = get_default vkvs ''name'' (JString ''''),
                       v_created_at = get_default vkvs ''created_at'' (JString ''''),
                       v_updated_at = get_default vkvs ''updated_at'' (JString ''''),
                       v_html_url = get_default vkvs ''html_url'' (JString '''')\<rparr>"
    by (simp_all add: c example_net_def get_default_def)
  from v1 have "v_updated_at (versions (rs ! Suc 0) ! 0) = JString ''2024-05-01T10:00:00Z''"
    by (auto simp: get_default_def dest!: spec[of _ 0])
  moreover from v1 have "v_updated_at (versions (rs ! Suc 0) ! Suc 0) = JString ''''"
    by (auto simp: get_default_def dest!: spec[of _ "Suc 0"])
  moreover note ps len r0 vs0 r1 l1
  ultimately have "[a_lib, b_lib] = sort_key name rs \<and> length rs = 2
         \<and> name (rs ! 0) = ''b-lib'' \<and> package_type (rs ! 0) = JString ''maven''
         \<and> html_url (rs ! 0) = JString ''''
         \<and> versions (rs ! 0) = [\<lparr>v_name = JString ''1.0.0'', v_created_at = JString '''',
                                  v_updated_at = JString '''', v_html_url = JString ''''\<rparr>]
         \<and> name (rs ! 1) = ''a-lib''
         \<and> html_url (rs ! 1) = JString ''https://example.org/a-lib''
         \<and> length (versions (rs ! 1)) = 2
         \<and> v_updated_at (versions (rs ! 1) ! 0) = JString ''2024-05-01T10:00:00Z''
         \<and> v_updated_at (versions (rs ! 1) ! 1) = JString ''''"
    by simp
  then have "\<exists>rs::package list. [a_lib, b_lib] = sort_key name rs \<and> length rs = 2
         \<and> name (rs ! 0) = ''b-lib'' \<and> package_type (rs ! 0) = JString ''maven''
         \<and> html_url (rs ! 0) = JString ''''
         \<and> versions (rs ! 0) = [\<lparr>v_name = JString ''1.0.0'', v_created_at = JString '''',
                                  v_updated_at = JString '''', v_html_url = JString ''''\<rparr>]
         \<and> name (rs ! 1) = ''a-lib''
         \<and> html_url (rs ! 1) = JString ''https://example.org/a-lib''
         \<and> length (versions (rs ! 1)) = 2
         \<and> v_updated_at (versions (rs ! 1) ! 0) = JString ''2024-05-01T10:00:00Z''
         \<and> v_updated_at (versions (rs ! 1) ! 1) = JString ''''"
    by (rule exI[of _ rs])
  with reply show ?thesis
    by (simp add: example_run)
qed


text \<open>
  C5, as stated: a versions reply that is not a list makes \<open>fetch_packages\<close> write a
  diagnostic, as a packages reply that is not a list does. With \<open>object_net\<close> the
  versions reply is a JSON object: the package gets no versions and the error stream
  stays empty.
\<close>

theorem versions_object_counterexample:
  "map versions (projr (fst (fetch_packages object_net ''acme'' ''t'' start))) = [[]]
   \<and> stderr (snd (fetch_packages object_net ''acme'' ''t'' start)) = []"
  by (simp add: fetch_packages_def api_get_cases object_net_def start_def fetch_one_def
        get_default_def)

text \<open>
  C5, amended. When the versions request of the \<open>i\<close>-th package is answered with a
  value that is not a list, the record of that package has no versions and nothing is
  printed for the reply. The error stream of a returning run gets the \<open>API error\<close>
  lines of the versions calls of the other packages, those answered with an HTTP status
  error, and no other line; the output stream gets one \<open>Fetching versions\<close> line for
  every package, and no other line.
\<close>

theorem versions_not_list_silent:
  assumes "fetch_packages U owner token s = (Inr ps, s')"
    and "U (calls s) (api_request (packages_url owner) token) = Response (Inr (JList pkgs))"
    and "i < length pkgs" and "pkgs ! i = JDict kvs"
    and "get_default kvs ''name'' (JString '''') = JString n"
    and "U (Suc (calls s + i)) (api_request (versions_url owner (encode_slashes n)) token)
           = Response (Inr j)"
    and "\<not> is_list j"
  shows "\<exists>rs. ps = sort_key name rs \<and> length rs = length pkgs
          \<and> (\<forall>k<length pkgs. \<exists>kvs'. pkgs ! k = JDict kvs'
                \<and> get_default kvs' ''name'' (JString '''') = JString (name (rs ! k)))
          \<and> name (rs ! i) = n \<and> versions (rs ! i) = []
          \<and> stderr s' = stderr s
               @ concat (map (\<lambda>k. api_error_lines U owner token (Suc (calls s + k)) (name (rs ! k)))
                           [0..<i])
               @ concat (map (\<lambda>k. api_error_lines U owner token (Suc (calls s + k)) (name (rs ! k)))
                           [Suc i..<length pkgs])
          \<and> stdout s' = stdout s @ map (\<lambda>p. Fetching_versions (JString (name p))) rs"
proof -
  let ?L = "\<lambda>rs k. api_error_lines U owner token (Suc (calls s + k)) (name (rs ! k))"
  from fetch_packages_lines[OF assms(1,2)] obtain rs where ps: "ps = sort_key name rs"
    and len: "length rs = length pkgs"
    and b: "\<forall>i<length pkgs. built U owner token (Suc (calls s + i)) (pkgs ! i) (rs ! i)"
    and e: "stderr s' = stderr s @ concat (map (?L rs) [0..<length pkgs])"
    and o: "stdout s' = stdout s @ map (\<lambda>p. Fetching_versions (JString (name p))) rs"
    by auto
  let ?p = "rs ! i"
  from b assms(3) have bi: "built U owner token (Suc (calls s + i)) (pkgs ! i) ?p"
    by auto
  with assms(4,5) have n: "name ?p = n"
    by (simp add: built_def)
  from bi assms(4) n assms(6) have "version_records j = Inr (versions ?p)"
    by (simp add: built_def)
  with version_records_not_list[OF assms(7)] have v: "versions ?p = []"
    by simp
  have "?L rs i = []"
    using n assms(6) by (simp add: api_error_lines_def)
  with e concat_map_upt_split[OF assms(3), of "?L rs"]
  have e': "stderr s' = stderr s @ concat (map (?L rs) [0..<i])
          @ concat (map (?L rs) [Suc i..<length pkgs])"
    by simp
  have nm: "\<forall>k<length pkgs. \<exists>kvs'. pkgs ! k = JDict kvs'
              \<and> get_default kvs' ''name'' (JString '''') = JString (name (rs ! k))"
  proof (intro allI impI)
    fix k assume "k < length pkgs"
    with b have "built U owner token (Suc (calls s + k)) (pkgs ! k) (rs ! k)"
      by simp
    then show "\<exists>kvs'. pkgs ! k = JDict kvs'
              \<and> get_default kvs' ''name'' (JString '''') = JString (name (rs ! k))"
      by (cases "pkgs ! k") (simp_all add: built_def)
  qed
  from ps len nm n v e' o show ?thesis
    by (intro exI[of _ rs] conjI)
qed

theorem versions_not_list_silent_witness:
  "fst (fetch_packages mixed_net ''acme'' ''t'' start)
     = Inr [\<lparr>name = ''a-lib'', package_type = JString ''maven'', html_url = JString '''',
             created_at = JString '''', updated_at = JString '''', versions = []\<rparr>,
            \<lparr>name = ''b-lib'', package_type = JString ''maven'', html_url = JString '''',
             created_at = JString '''', updated_at = JString '''', versions = []\<rparr>]
   \<and> \<not> is_list (JDict [(''message'', JString ''Not Found'')])
   \<and> stderr (snd (fetch_packages mixed_net ''acme'' ''t'' start))
       = [API_error 404 (versions_url ''acme'' ''b-lib'') ''Not Found'']
   \<and> stdout (snd (fetch_packages mixed_net ''acme'' ''t'' start))
       = [Fetching_versions (JString ''a-lib''), Fetching_versions (JString ''b-lib'')]
   \<and> (\<exists>rs::package list. length rs = 2 \<and> name (rs ! 0) = ''a-lib'' \<and> versions (rs ! 0) = []
         \<and> stderr (snd (fetch_packages mixed_net ''acme'' ''t'' start))
             = api_error_lines mixed_net ''acme'' ''t'' 2 (name (rs ! 1))
         \<and> stdout (snd (fetch_packages mixed_net ''acme'' ''t'' start))
             = map (\<lambda>p. Fetching_versions (JString (name p))) rs)"
proof -
  let ?a = "\<lparr>name = ''a-lib'', package_type = JString ''maven'', html_url = JString '''',
             created_at = JString '''', updated_at = JString '''', versions = []\<rparr>"
  let ?b = "\<lparr>name = ''b-lib'', package_type = JString ''maven'', html_url = JString '''',
             created_at = JString '''', updated_at = JString '''', versions = []\<rparr>"
  let ?pkgs = "[JDict [(''name'', JString ''a-lib'')], JDict [(''name'', JString ''b-lib'')]]"
  let ?L = "\<lambda>rs k. api_error_lines mixed_net ''acme'' ''t'' (Suc (calls start + k))
                     (name (rs ! k))"
  obtain s' where run: "fetch_packages mixed_net ''acme'' ''t'' start = (Inr [?a, ?b], s')"
    and err: "stderr s' = [API_error 404 (versions_url ''acme'' ''b-lib'') ''Not Found'']"
    and out: "stdout s' = [Fetching_versions (JString ''a-lib''),
                           Fetching_versions (JString ''b-lib'')]"
    by (simp add: fetch_packages_def api_get_cases mixed_net_def start_def fetch_one_def
        get_default_def encode_slashes_def str_in_versions_url)
  have "\<exists>rs. [?a, ?b] = sort_key name rs \<and> length rs = length ?pkgs
          \<and> (\<forall>k<length ?pkgs. \<exists>kvs'. ?pkgs ! k = JDict kvs'
                \<and> get_default kvs' ''name'' (JString '''') = JString (name (rs ! k)))
          \<and> name (rs ! 0) = ''a-lib'' \<and> versions (rs ! 0) = []
          \<and> stderr s' = stderr start @ concat (map (?L rs) [0..<0])
               @ concat (map (?L rs) [Suc 0..<length ?pkgs])
          \<and> stdout s' = stdout start @ map (\<lambda>p. Fetching_versions (JString (name p))) rs"
    (is "\<exists>rs. ?Q rs")
    by (rule versions_not_list_silent[OF run, where i = 0
          and j = "JDict [(''message'', JString ''Not Found'')]"
          and kvs = "[(''name'', JString ''a-lib'')]"])
       (simp_all add: mixed_net_def start_def get_default_def encode_slashes_def)
  then obtain rs where rs: "?Q rs" ..
  then have len: "length rs = 2" and n: "name (rs ! 0) = ''a-lib''"
    and v: "versions (rs ! 0) = []"
    and e: "stderr s' = stderr start @ concat (map (?L rs) [0..<0])
               @ concat (map (?L rs) [Suc 0..<length ?pkgs])"
    and o: "stdout s' = stdout start @ map (\<lambda>p. Fetching_versions (JString (name p))) rs"
    by simp_all
  have st: "stderr start = []" "calls start = 0" "stdout start = []"
    by (simp_all add: start_def)
  with e have "stderr s' = api_error_lines mixed_net ''acme'' ''t'' (Suc (Suc 0)) (name (rs ! Suc 0))"
    by simp
  then have "stderr s' = api_error_lines mixed_net ''acme'' ''t'' 2 (name (rs ! 1))"
    by (simp only: numeral_2_eq_2 One_nat_def)
  moreover from o st have "stdout s' = map (\<lambda>p. Fetching_versions (JString (name p))) rs"
    by simp
  moreover note len n v
  ultimately
  have "length rs = 2 \<and> name (rs ! 0) = ''a-lib'' \<and> versions (rs ! 0) = []
         \<and> stderr s' = api_error_lines mixed_net ''acme'' ''t'' 2 (name (rs ! 1))
         \<and> stdout s' = map (\<lambda>p. Fetching_versions (JString (name p))) rs"
    by (intro conjI)
  then have "\<exists>rs::package list. length rs = 2 \<and> name (rs ! 0) = ''a-lib'' \<and> versions (rs ! 0) = []
         \<and> stderr s' = api_error_lines mixed_net ''acme'' ''t'' 2 (name (rs ! 1))
         \<and> stdout s' = map (\<lambda>p. Fetching_versions (JString (name p))) rs"
    by (rule exI[of _ rs])
  with run err out show ?thesis
    by simp
qed

text \<open>
  C6, as stated: no HTTP status error leaves \<open>api_get\<close>. With \<open>garbled_net\<close> the body
  of the 502 reply is not UTF-8 text: \<open>e.read().decode()\<close> raises inside the handler,
  nothing is printed and \<open>UnicodeDecodeError\<close> leaves \<open>api_get\<close>.
\<close>

theorem undecodable_body_counterexample:
  "api_get garbled_net (packages_url ''acme'') ''t'' start
     = (Inl UnicodeDecodeError, start\<lparr>calls := 1\<rparr>)"
  by (simp add: api_get_cases garbled_net_def start_def)

text \<open>
  C6, amended. When a call gets an HTTP status error whose body reads and decodes as
  text, \<open>api_get\<close> writes one line with the status code, the URL and the body to the
  error stream and returns an empty collection: the empty list when the URL contains
  \<open>versions\<close> or \<open>packages\<close>, the empty dictionary otherwise.
\<close>

theorem api_get_status_error:
  assumes "U (calls s) (api_request u token) = Status_error code (Inr body)"
  shows "api_get U u token s =
           (Inr (if str_in ''versions'' u \<or> str_in ''packages'' u then JList [] else JDict []),
            s\<lparr>calls := Suc (calls s), stderr := stderr s @ [API_error code u body]\<rparr>)"
  using assms by (simp add: api_get_cases)

theorem api_get_status_error_witness:
  "refusing_net (calls start) (api_request (packages_url ''acme'') ''t'')
     = Status_error 404 (Inr ''Not Found'')
   \<and> api_get refusing_net (packages_url ''acme'') ''t'' start =
       (Inr (JList []),
        \<lparr>calls = 1, stdout = [],
         stderr = [API_error 404 (packages_url ''acme'') ''Not Found''], site_index = None\<rparr>)"
proof -
  have h: "refusing_net (calls start) (api_request (packages_url ''acme'') ''t'')
             = Status_error 404 (Inr ''Not Found'')"
    by (simp add: refusing_net_def)
  from api_get_status_error[where U = refusing_net and s = start, OF h] h show ?thesis
    by (simp add: str_in_packages_url start_def)
qed

subsection \<open>The command line\<close>

text \<open>
  C7. With fewer than three positional arguments \<open>main\<close> prints the usage line and
  calls \<open>sys.exit(1)\<close>; and it is the only place where \<open>main\<close> ends by \<open>sys.exit\<close>
  (a run that ends otherwise ends by an exception that nothing catches).
\<close>

theorem main_usage_exit:
  "(length (tl argv) < 3 \<longrightarrow>
      main R U argv s = (SystemExit 1, s\<lparr>stdout := stdout s @ [Usage]\<rparr>))
   \<and> (\<forall>n s'. main R U argv s = (SystemExit n, s') \<longrightarrow> length (tl argv) < 3)"
proof -
  have eq: "length (tl argv) < 3 \<longleftrightarrow> length argv < 4"
    by (cases argv) auto
  show ?thesis
    unfolding eq
    by (auto simp: main_def Let_def generate_html_raises split: prod.splits sum.splits)
qed

theorem main_usage_exit_witness:
  "length (tl [''generate-index.py'', ''acme'', ''widgets'']) < 3
   \<and> main some_runtime example_net [''generate-index.py'', ''acme'', ''widgets''] start
       = (SystemExit 1, \<lparr>calls = 0, stdout = [Usage], stderr = [], site_index = None\<rparr>)"
  using main_usage_exit[of "[''generate-index.py'', ''acme'', ''widgets'']"
          some_runtime example_net start]
  by (simp add: start_def)

subsection \<open>Failures without an HTTP status\<close>




subsection \<open>The renderer\<close>

text \<open>
  C1. With an empty package sequence \<open>generate_html\<close> should return a document showing
  0 packages and 0 versions. It returns no document: for every account, repository and
  revision identifier the call raises \<open>NameError\<close> for \<open>pkg_count\<close>.
\<close>

theorem generate_html_empty_raises:
  "generate_html R [] owner repo commit_sha = Inl (NameError ''pkg_count'')"
  by (rule generate_html_raises)

text \<open>
  C2. The summary line should show the sum of the lengths of the versions lists. For
  the two packages of the example the sum is computed, 3, and no document shows it:
  the call raises \<open>NameError\<close>.
\<close>

theorem version_count_not_displayed:
  "total_versions [a_lib, b_lib] = 3
   \<and> generate_html R [a_lib, b_lib] ''acme'' ''widgets'' '''' = Inl (NameError ''pkg_count'')"
  by (simp add: total_versions_def a_lib_def b_lib_def generate_html_raises)

text \<open>
  C8. The serialization embedded in the document should give back the names and
  timestamps of the records. For the record of \<open>b-lib\<close> the serialization is computed,
  and no document embeds it: the call raises \<open>NameError\<close>.
\<close>

theorem serialization_not_embedded:
  \<open>pkg_json [b_lib] =
     ''[{"name": "b-lib", "package_type": "maven", "html_url": "", "created_at": "", "updated_at": "", "versions": [{"name": "1.0.0", "created_at": "", "updated_at": "", "html_url": ""}]}]''
   \<and> generate_html R [b_lib] ''acme'' ''widgets'' ''0123456789abcdef''
       = Inl (NameError ''pkg_count'')\<close>
  by (simp add: pkg_json_def package_dict_def version_dict_def b_lib_def encode_basestring_def
        escape_char_def dquote_def backslash_def generate_html_raises)




end
